theory Spec2Isabelle
  imports
    Complex_Main
    "HOL-Library.Word"
    "HOL-Library.Multiset"
    "HOL-Library.Char_ord"
    "HOL-Library.List_Lexorder"
    "HOL-Library.AList"
begin

section \<open>Python values\<close>

text \<open>
  A Python \<open>str\<close> is modelled as a \<open>string\<close>: one \<open>char\<close> per code point, so the
  model covers the code points below 256 (the Latin-1 range), and \<open>length\<close>, \<open>take\<close>
  and the order on strings (lexicographic on code points, as Python compares) count
  what Python counts. A \<open>bytes\<close> value is a list of 8-bit words.
\<close>

type_synonym byte = "8 word"
type_synonym bytes = "byte list"

text \<open>\<open>str.lower\<close> on the Latin-1 range: A-Z and the accented capitals move up by 32.\<close>

definition lower_char :: "char \<Rightarrow> char" where
  "lower_char c =
     (let n = (of_char c :: nat)
      in if (65 \<le> n \<and> n \<le> 90) \<or> (192 \<le> n \<and> n \<le> 222 \<and> n \<noteq> 215)
         then char_of (n + 32) else c)"

definition lower :: "string \<Rightarrow> string" where
  "lower s = map lower_char s"

definition endswith :: "string \<Rightarrow> string \<Rightarrow> bool" where
  "endswith s suffix =
     (length suffix \<le> length s \<and> drop (length s - length suffix) s = suffix)"

text \<open>\<open>str.isspace\<close> on the Latin-1 range, and \<open>str.strip()\<close> with no argument.\<close>

definition isspace :: "char \<Rightarrow> bool" where
  "isspace c =
     (let n = (of_char c :: nat)
      in (9 \<le> n \<and> n \<le> 13) \<or> (28 \<le> n \<and> n \<le> 32) \<or> n = 133 \<or> n = 160)"

definition strip :: "string \<Rightarrow> string" where
  "strip s = rev (dropWhile isspace (rev (dropWhile isspace s)))"

text \<open>\<open>sep.join(parts)\<close>.\<close>

fun join :: "string \<Rightarrow> string list \<Rightarrow> string" where
  "join sep [] = []"
| "join sep [p] = p"
| "join sep (p # q # ps) = p @ sep @ join sep (q # ps)"

text \<open>\<open>bytes.decode('latin-1')\<close>: every byte is the code point of its value; it never fails.\<close>

definition decode_latin1 :: "bytes \<Rightarrow> string" where
  "decode_latin1 bs = map (\<lambda>b. char_of (unat b)) bs"

section \<open>Failures\<close>

text \<open>
  The source raises \<open>ValueError\<close> with three different messages; the model names
  them after the failure they stand for. \<open>CompletionError\<close> is any exception of the
  completion call or of \<open>json.loads\<close> (logged and re-raised by the source), and
  \<open>TypeError\<close> and \<open>AttributeError\<close> are Python's own, raised where a parsed value
  has the wrong shape.
\<close>

datatype error =
    NotConfigured       \<comment> \<open>ValueError: Azure OpenAI credentials not configured\<close>
  | UnsupportedFormat   \<comment> \<open>ValueError: Legacy .doc format not supported\<close>
  | NoExtractableText   \<comment> \<open>ValueError: Could not extract text from any of the provided documents\<close>
  | CompletionError
  | TypeError
  | AttributeError

section \<open>Text extraction (document\_analyzer.py)\<close>

text \<open>
  What \<open>python-docx\<close> reads from a word-processing file: the text of each paragraph
  and, for each table, the text of each cell of each row.
\<close>

record docx =
  paragraphs :: "string list"
  tables :: "string list list list"

text \<open>
  Everything outside the repository that the code calls is a field of one record, so
  that the functions below stay functions of their inputs:
  \<^item> \<open>Document\<close>: opening the bytes with \<open>python-docx\<close> (\<open>None\<close> when anything in
    the \<open>try\<close> block of \<open>extract_text_from_docx\<close> raises);
  \<^item> \<open>decode_utf8\<close>: \<open>bytes.decode('utf-8')\<close> (\<open>None\<close> for \<open>UnicodeDecodeError\<close>);
  \<^item> \<open>b64decode\<close>: \<open>base64.b64decode\<close> (\<open>None\<close> when it raises);
  \<^item> \<open>environ\<close>: \<open>os.environ\<close>;
  \<^item> \<open>chat_completions_create\<close>: the content of the first choice of the hosted
    completion (\<open>None\<close> when the call raises);
  \<^item> \<open>json_loads\<close> (\<open>None\<close> when it raises) and \<open>json_dumps\<close> (with \<open>indent=2\<close>);
  \<^item> \<open>repr\<close>: the text Python writes for a value that is not a string, as an
    f-string formats it;
  \<^item> \<open>rank_lists\<close>: for sort keys that are all lists, the place that \<open>list.sort\<close>
    gives to the key at each index (\<open>None\<close> when the comparison of two of the lists
    raises \<open>TypeError\<close>);
  \<^item> the prompt literals of the source, which are long and hold characters beyond
    Latin-1: the prompts and the heading of the organizational-context part of the
    synthesis message.
\<close>

datatype json =
    JNull
  | JBool bool
  | JInt int
  | JFloat rat
  | JStr string
  | JArr "json list"
  | JObj "(string \<times> json) list"

text \<open>A \<open>dict\<close> with string keys keeps its insertion order: an association list.\<close>

type_synonym dict = "(string \<times> json) list"

record request =
  req_endpoint :: string
  req_api_key :: string
  req_api_version :: string
  req_model :: string
  req_system :: string
  req_user :: string
  req_temperature :: rat
  req_max_tokens :: nat

record platform =
  Document :: "bytes \<Rightarrow> docx option"
  decode_utf8 :: "bytes \<Rightarrow> string option"
  b64decode :: "string \<Rightarrow> bytes option"
  environ :: "(string \<times> string) list"
  chat_completions_create :: "request \<Rightarrow> string option"
  json_loads :: "string \<Rightarrow> json option"
  json_dumps :: "json \<Rightarrow> string"
  repr :: "json \<Rightarrow> string"
  rank_lists :: "json list list \<Rightarrow> (nat \<Rightarrow> nat) option"
  FAMILY_ANALYSIS_PROMPT :: string
  SEARCH_INTENT_PROMPT :: string
  INTENT_EXTRACTION_PROMPT :: string
  SYNTHESIS_GENERATION_PROMPT :: "string \<Rightarrow> string"
  ORGANIZATIONAL_CONTEXT_HEADING :: string

fun row_texts :: "string list list \<Rightarrow> string list" where
  "row_texts [] = []"
| "row_texts (row # rows) =
     (let row_text = map strip (filter (\<lambda>cell. strip cell \<noteq> []) row)
      in if row_text \<noteq> [] then join '' | '' row_text # row_texts rows
         else row_texts rows)"

definition extract_text_from_docx :: "platform \<Rightarrow> bytes \<Rightarrow> string" where
  "extract_text_from_docx P file_bytes =
     (case Document P file_bytes of
        None \<Rightarrow> []
      | Some doc \<Rightarrow>
          join [CHR 0x0A]
            (filter (\<lambda>para. strip para \<noteq> []) (paragraphs doc)
             @ concat (map row_texts (tables doc))))"

definition extract_text_from_txt :: "platform \<Rightarrow> bytes \<Rightarrow> string" where
  "extract_text_from_txt P file_bytes =
     (case decode_utf8 P file_bytes of
        Some text \<Rightarrow> text
      | None \<Rightarrow> decode_latin1 file_bytes)"

definition extract_text :: "platform \<Rightarrow> bytes \<Rightarrow> string \<Rightarrow> error + string" where
  "extract_text P file_bytes filename =
     (let filename_lower = lower filename
      in if endswith filename_lower ''.docx'' then Inr (extract_text_from_docx P file_bytes)
         else if endswith filename_lower ''.txt'' then Inr (extract_text_from_txt P file_bytes)
         else if endswith filename_lower ''.doc'' then Inl UnsupportedFormat
         else Inr (extract_text_from_txt P file_bytes))"

section \<open>Dictionaries\<close>

text \<open>\<open>d.get(key, default)\<close> and \<open>d[key] = value\<close>.\<close>

definition get :: "(string \<times> 'v) list \<Rightarrow> string \<Rightarrow> 'v \<Rightarrow> 'v" where
  "get d key dflt = (case map_of d key of Some v \<Rightarrow> v | None \<Rightarrow> dflt)"

definition setitem :: "(string \<times> 'v) list \<Rightarrow> string \<Rightarrow> 'v \<Rightarrow> (string \<times> 'v) list" where
  "setitem d key v = AList.update key v d"



text \<open>\<open>len(v)\<close> and \<open>v[:n]\<close> of a parsed value; what has no length or no slice raises.\<close>

fun len :: "json \<Rightarrow> error + nat" where
  "len (JStr s) = Inr (length s)"
| "len (JArr xs) = Inr (length xs)"
| "len (JObj kvs) = Inr (length kvs)"
| "len v = Inl TypeError"

fun slice_to :: "nat \<Rightarrow> json \<Rightarrow> error + json" where
  "slice_to n (JStr s) = Inr (JStr (take n s))"
| "slice_to n (JArr xs) = Inr (JArr (take n xs))"
| "slice_to n v = Inl TypeError"

section \<open>Field merging (intent\_extractor.py)\<close>



section \<open>Credentials and the completion call\<close>

text \<open>
  \<open>a or b\<close> on optional strings (\<open>None\<close> and the empty string are false) and the test
  \<open>not x\<close>.
\<close>

definition py_or :: "string option \<Rightarrow> string option \<Rightarrow> string option" where
  "py_or a b = (case a of Some s \<Rightarrow> if s \<noteq> [] then Some s else b | None \<Rightarrow> b)"

definition falsy :: "string option \<Rightarrow> bool" where
  "falsy x = (case x of None \<Rightarrow> True | Some s \<Rightarrow> s = [])"

text \<open>\<open>os.environ.get(name)\<close> and \<open>os.environ.get(name, default)\<close>.\<close>

definition environ_get :: "platform \<Rightarrow> string \<Rightarrow> string option" where
  "environ_get P name = map_of (environ P) name"

definition environ_get_default :: "platform \<Rightarrow> string \<Rightarrow> string \<Rightarrow> string" where
  "environ_get_default P name dflt = get (environ P) name dflt"

text \<open>
  What the code does outside itself is recorded as it happens: one event for each
  document whose content is decoded and extracted, one for each completion requested.
\<close>

datatype event = Extraction string | Completion request

text \<open>
  \<open>client.chat.completions.create(...)\<close>, the content of its first choice, then
  \<open>json.loads\<close>: both inside the \<open>try\<close> whose handler logs and re-raises.
\<close>

definition completion_json :: "platform \<Rightarrow> request \<Rightarrow> error + json" where
  "completion_json P req =
     (case chat_completions_create P req of
        None \<Rightarrow> Inl CompletionError
      | Some result_text \<Rightarrow>
          (case json_loads P result_text of
             None \<Rightarrow> Inl CompletionError
           | Some result \<Rightarrow> Inr result))"

section \<open>Intent extraction (intent\_extractor.py)\<close>

text \<open>
  The credentials are present past the check, so \<open>the\<close> reads a \<open>Some\<close> there; the
  deployment and the version always have their defaults.
\<close>

definition extract_search_intent ::
  "platform \<Rightarrow> string \<Rightarrow> string option \<Rightarrow> string option \<Rightarrow> string option \<Rightarrow> string option
     \<Rightarrow> event list \<times> (error + dict)" where
  "extract_search_intent P user_prompt azure_endpoint azure_api_key azure_deployment api_version =
     (let endpoint = py_or azure_endpoint (environ_get P ''AZURE_OPENAI_ENDPOINT'');
          api_key = py_or azure_api_key (environ_get P ''AZURE_OPENAI_KEY'');
          deployment = py_or azure_deployment
                         (Some (environ_get_default P ''AZURE_OPENAI_DEPLOYMENT'' ''gpt-4o-mini''));
          version = py_or api_version
                      (Some (environ_get_default P ''AZURE_OPENAI_API_VERSION'' ''2025-01-01-preview''))
      in if falsy endpoint \<or> falsy api_key then ([], Inl NotConfigured)
         else
           (let req = \<lparr>req_endpoint = the endpoint, req_api_key = the api_key,
                       req_api_version = the version, req_model = the deployment,
                       req_system = SEARCH_INTENT_PROMPT P, req_user = user_prompt,
                       req_temperature = 1 / 10, req_max_tokens = 500\<rparr>
            in ([Completion req],
                case completion_json P req of
                  Inl e \<Rightarrow> Inl e
                | Inr (JObj result) \<Rightarrow>
                    (case slice_to 3 (get result ''search_terms'' (JArr [])) of
                       Inl e \<Rightarrow> Inl e
                     | Inr search_terms \<Rightarrow>
                         (case slice_to 4 (get result ''context_search_terms'' (JArr [])) of
                            Inl e \<Rightarrow> Inl e
                          | Inr context_search_terms \<Rightarrow>
                              Inr [(''document_type'', get result ''document_type'' (JStr ''unknown'')),
                                   (''search_terms'', search_terms),
                                   (''context_search_terms'', context_search_terms),
                                   (''summary'', get result ''summary'' (JStr '''')),
                                   (''confidence'', get result ''confidence'' (JFloat (1 / 2)))]))
                | Inr other \<Rightarrow> Inl AttributeError)))"

definition extract_intent ::
  "platform \<Rightarrow> string \<Rightarrow> string option \<Rightarrow> string option \<Rightarrow> string option \<Rightarrow> string option
     \<Rightarrow> event list \<times> (error + dict)" where
  "extract_intent P user_prompt azure_endpoint azure_api_key azure_deployment api_version =
     (let endpoint = py_or azure_endpoint (environ_get P ''AZURE_OPENAI_ENDPOINT'');
          api_key = py_or azure_api_key (environ_get P ''AZURE_OPENAI_KEY'');
          deployment = py_or azure_deployment
                         (Some (environ_get_default P ''AZURE_OPENAI_DEPLOYMENT'' ''gpt-4o-mini''));
          version = py_or api_version
                      (Some (environ_get_default P ''AZURE_OPENAI_API_VERSION'' ''2025-01-01-preview''))
      in if falsy endpoint \<or> falsy api_key then ([], Inl NotConfigured)
         else
           (let req = \<lparr>req_endpoint = the endpoint, req_api_key = the api_key,
                       req_api_version = the version, req_model = the deployment,
                       req_system = INTENT_EXTRACTION_PROMPT P, req_user = user_prompt,
                       req_temperature = 1 / 10, req_max_tokens = 1000\<rparr>
            in ([Completion req],
                case completion_json P req of
                  Inl e \<Rightarrow> Inl e
                | Inr (JObj result) \<Rightarrow>
                    Inr [(''intent'', get result ''intent'' (JStr ''unknown'')),
                         (''document_type'', get result ''document_type'' (JStr ''unknown'')),
                         (''search_terms'', get result ''search_terms'' (JArr [])),
                         (''extracted_fields'', get result ''extracted_fields'' (JObj [])),
                         (''confidence'', get result ''confidence'' (JFloat (1 / 2))),
                         (''summary'', get result ''summary'' (JStr ''''))]
                | Inr other \<Rightarrow> Inl AttributeError)))"

section \<open>Family analysis (family\_analyzer.py)\<close>

text \<open>
  An input document, and what the extraction loop keeps of it. The metadata is whatever
  value the caller sent under that key: \<open>doc_metadata\<close> is \<open>None\<close> when the key is
  absent, which \<open>doc.get('metadata', {})\<close> reads as the empty dict, and \<open>Some v\<close> when
  it is present, which the same call reads as \<open>v\<close>, a dict or not (\<open>Some JNull\<close> for
  \<open>"metadata": null\<close>).
\<close>

record document =
  doc_filename :: string
  doc_content :: string
  doc_metadata :: "json option"

record doc_text =
  dt_filename :: string
  dt_text :: string
  dt_metadata :: json

text \<open>\<open>str(n)\<close> of a length or a position, as the f-strings format it.\<close>

fun str :: "nat \<Rightarrow> string" where
  "str n = (if n < 10 then [char_of (48 + n)] else str (n div 10) @ [char_of (48 + n mod 10)])"

declare str.simps [simp del]

text \<open>
  One iteration of the extraction loop: any exception (of the decoding or of
  \<open>extract_text\<close>) and an empty stripped text both drop the document; a kept text is cut
  to the character budget.
\<close>

definition extract_document :: "platform \<Rightarrow> nat \<Rightarrow> document \<Rightarrow> doc_text option" where
  "extract_document P budget doc =
     (case b64decode P (doc_content doc) of
        None \<Rightarrow> None
      | Some content_bytes \<Rightarrow>
          (case extract_text P content_bytes (doc_filename doc) of
             Inl e \<Rightarrow> None
           | Inr text \<Rightarrow>
               if strip text \<noteq> []
               then Some \<lparr>dt_filename = doc_filename doc,
                          dt_text = take budget text,
                          dt_metadata =
                            (case doc_metadata doc of None \<Rightarrow> JObj [] | Some m \<Rightarrow> m)\<rparr>
               else None))"

fun extract_documents :: "platform \<Rightarrow> nat \<Rightarrow> document list \<Rightarrow> doc_text list" where
  "extract_documents P budget [] = []"
| "extract_documents P budget (doc # documents) =
     (case extract_document P budget doc of
        Some dt \<Rightarrow> dt # extract_documents P budget documents
      | None \<Rightarrow> extract_documents P budget documents)"

text \<open>
  \<open>dt['metadata'].get(key, default)\<close>: the kept metadata is asked for a key as if it
  were a dict. A dict answers with the value under the key, whatever it is (\<open>None\<close>
  included), or with the default; any other value has no \<open>get\<close> (\<open>AttributeError\<close>).
\<close>

definition metadata_get :: "json \<Rightarrow> string \<Rightarrow> json \<Rightarrow> error + json" where
  "metadata_get metadata key dflt =
     (case metadata of
        JObj d \<Rightarrow> Inr (get d key dflt)
      | other \<Rightarrow> Inl AttributeError)"

text \<open>
  The dict returned for a single document. Its \<open>date_range\<close> is read from the metadata,
  outside any \<open>try\<close>: the failure of that read is the failure of the call.
\<close>

definition single_document_stub :: "doc_text \<Rightarrow> error + dict" where
  "single_document_stub dt =
     (case metadata_get (dt_metadata dt) ''created'' (JStr ''unknown'') of
        Inl e \<Rightarrow> Inl e
      | Inr date_range \<Rightarrow>
          Inr [(''family_type'', JStr ''unknown''),
               (''family_type_display'', JStr ''Single Document''),
               (''document_count'', JInt 1),
               (''date_range'', date_range),
               (''analysis'', JObj
                  [(''stable_elements'',
                      JObj [(''description'', JStr ''N/A for single document''),
                            (''items'', JArr [])]),
                   (''variable_elements'',
                      JObj [(''description'', JStr ''N/A for single document''),
                            (''items'', JArr [])]),
                   (''emerging_elements'',
                      JObj [(''description'', JStr ''N/A for single document''),
                            (''items'', JArr [])])]),
               (''recommended_base'', JStr (dt_filename dt)),
               (''base_document_text'', JStr (dt_text dt)),
               (''organizational_context'', JStr ''''),
               (''confidence'', JFloat (1 / 2)),
               (''summary'', JStr (''Only one document found: '' @ dt_filename dt
                                   @ ''. Use single-document analysis instead.'')),
               (''single_document_fallback'', JBool True)])"

text \<open>
  \<open>doc_texts.sort(key=lambda d: d['metadata'].get('created', ''))\<close>. The keys of all
  elements are computed first, in order, and the first key that raises ends the sort.
\<close>

definition created_key :: "doc_text \<Rightarrow> error + json" where
  "created_key d = metadata_get (dt_metadata d) ''created'' (JStr '''')"

fun created_keys :: "doc_text list \<Rightarrow> error + json list" where
  "created_keys [] = Inr []"
| "created_keys (d # doc_texts) =
     (case created_key d of
        Inl e \<Rightarrow> Inl e
      | Inr key \<Rightarrow>
          (case created_keys doc_texts of
             Inl e \<Rightarrow> Inl e
           | Inr keys \<Rightarrow> Inr (key # keys)))"

text \<open>
  The keys are then compared with \<open><\<close>, which Python defines between two strings (by
  code point), between two numbers (a \<open>bool\<close> is the number 0 or 1) and between two
  lists, and for no other pair of parsed values: \<open>None\<close> and a dict compare with
  nothing, themselves included. The three functions read a key as one of the three
  kinds.
\<close>

fun str_key :: "json \<Rightarrow> string option" where
  "str_key (JStr s) = Some s"
| "str_key v = None"

fun num_key :: "json \<Rightarrow> rat option" where
  "num_key (JBool b) = Some (if b then 1 else 0)"
| "num_key (JInt i) = Some (of_int i)"
| "num_key (JFloat r) = Some r"
| "num_key v = None"

fun list_key :: "json \<Rightarrow> json list option" where
  "list_key (JArr xs) = Some xs"
| "list_key v = None"

text \<open>
  \<open>list.sort\<close> with the keys already computed, one for each element. A list of fewer
  than two elements is returned as it is, with no comparison made. Otherwise the sort is
  stable and ascending when the keys are all strings or all numbers; keys that are all
  lists are ordered as the interpreter orders them; and any other keys raise
  \<open>TypeError\<close> instead of sorting.
\<close>

definition list_sort :: "platform \<Rightarrow> json list \<Rightarrow> 'a list \<Rightarrow> error + 'a list" where
  "list_sort P keys xs =
     (if length xs < 2 then Inr xs
      else case those (map str_key keys) of
        Some key_strings \<Rightarrow> Inr (map snd (sort_key fst (zip key_strings xs)))
      | None \<Rightarrow>
          (case those (map num_key keys) of
             Some key_numbers \<Rightarrow> Inr (map snd (sort_key fst (zip key_numbers xs)))
           | None \<Rightarrow>
               (case those (map list_key keys) of
                  Some key_lists \<Rightarrow>
                    (case rank_lists P key_lists of
                       Some rank \<Rightarrow>
                         Inr (map snd (sort_key (\<lambda>(i, x). rank i) (enumerate 0 xs)))
                     | None \<Rightarrow> Inl TypeError)
                | None \<Rightarrow> Inl TypeError)))"

definition sort_by_created :: "platform \<Rightarrow> doc_text list \<Rightarrow> error + doc_text list" where
  "sort_by_created P doc_texts =
     (case created_keys doc_texts of
        Inl e \<Rightarrow> Inl e
      | Inr keys \<Rightarrow> list_sort P keys doc_texts)"

text \<open>
  The two \<open>enumerate(..., 1)\<close> loops that write the comparison text. The f-string
  writes a \<open>created\<close> that is a string as it is, and any other value as Python prints
  it.
\<close>

definition format_value :: "platform \<Rightarrow> json \<Rightarrow> string" where
  "format_value P v = (case v of JStr s \<Rightarrow> s | other \<Rightarrow> repr P other)"

fun document_sections :: "platform \<Rightarrow> nat \<Rightarrow> doc_text list \<Rightarrow> error + string" where
  "document_sections P i [] = Inr []"
| "document_sections P i (dt # doc_texts) =
     (case metadata_get (dt_metadata dt) ''created'' (JStr ''unknown date'') of
        Inl e \<Rightarrow> Inl e
      | Inr created \<Rightarrow>
          (case document_sections P (Suc i) doc_texts of
             Inl e \<Rightarrow> Inl e
           | Inr sections \<Rightarrow>
               Inr (''\<newline>\<newline>=== DOCUMENT '' @ str i @ '': '' @ dt_filename dt
                    @ '' (created: '' @ format_value P created @ '') ===\<newline>''
                    @ dt_text dt
                    @ sections)))"

fun context_sections :: "nat \<Rightarrow> doc_text list \<Rightarrow> string" where
  "context_sections i [] = []"
| "context_sections i (ct # context_texts) =
     ''\<newline>\<newline>--- Context Doc '' @ str i @ '': '' @ dt_filename ct @ '' ---\<newline>''
       @ dt_text ct
       @ context_sections (Suc i) context_texts"

text \<open>
  The text attached as \<open>base_document_text\<close>: that of the first document whose
  filename equals \<open>recommended\<close>, and that of the last document when the search ends
  with the empty text.
\<close>

definition base_document_text :: "doc_text list \<Rightarrow> json \<Rightarrow> string" where
  "base_document_text doc_texts recommended =
     (let base_text =
            (case find (\<lambda>dt. JStr (dt_filename dt) = recommended) doc_texts of
               Some dt \<Rightarrow> dt_text dt
             | None \<Rightarrow> [])
      in if base_text = [] \<and> doc_texts \<noteq> [] then dt_text (last doc_texts) else base_text)"

definition analyze_document_family ::
  "platform \<Rightarrow> document list \<Rightarrow> string \<Rightarrow> document list option
     \<Rightarrow> string option \<Rightarrow> string option \<Rightarrow> string option \<Rightarrow> string option
     \<Rightarrow> event list \<times> (error + dict)" where
  "analyze_document_family P documents user_context context_documents
       azure_endpoint azure_api_key azure_deployment api_version =
     (let endpoint = py_or azure_endpoint (environ_get P ''AZURE_OPENAI_ENDPOINT'');
          api_key = py_or azure_api_key (environ_get P ''AZURE_OPENAI_KEY'');
          deployment = py_or azure_deployment
                         (Some (environ_get_default P ''AZURE_OPENAI_DEPLOYMENT_LARGE''
                                  (environ_get_default P ''AZURE_OPENAI_DEPLOYMENT'' ''gpt-4o-mini'')));
          version = py_or api_version
                      (Some (environ_get_default P ''AZURE_OPENAI_API_VERSION'' ''2025-01-01-preview''))
      in if falsy endpoint \<or> falsy api_key then ([], Inl NotConfigured)
         else
           (let extractions = map (\<lambda>doc. Extraction (doc_filename doc)) documents
            in case extract_documents P 6000 documents of
                 [] \<Rightarrow> (extractions, Inl NoExtractableText)
               | [dt] \<Rightarrow> (extractions, single_document_stub dt)
               | unsorted \<Rightarrow>
                   (case sort_by_created P unsorted of
                      Inl e \<Rightarrow> (extractions, Inl e)
                    | Inr doc_texts \<Rightarrow>
                   (case document_sections P 1 doc_texts of
                      Inl e \<Rightarrow> (extractions, Inl e)
                    | Inr sections \<Rightarrow>
                   (let comparison_text =
                          sections
                          @ (if user_context \<noteq> [] then ''\<newline>\<newline>User context: '' @ user_context
                             else []);
                        context_list = (case context_documents of None \<Rightarrow> [] | Some ds \<Rightarrow> ds);
                        context_texts = extract_documents P 4000 context_list;
                        comparison_text =
                          comparison_text
                          @ (if context_texts \<noteq> []
                             then ''\<newline>\<newline>=== ORGANIZATIONAL CONTEXT DOCUMENTS ===''
                                  @ context_sections 1 context_texts
                             else []);
                        req = \<lparr>req_endpoint = the endpoint, req_api_key = the api_key,
                               req_api_version = the version, req_model = the deployment,
                               req_system = FAMILY_ANALYSIS_PROMPT P,
                               req_user = ''Analyze these '' @ str (length doc_texts)
                                          @ '' related documents:\<newline>'' @ comparison_text,
                               req_temperature = 2 / 10, req_max_tokens = 3000\<rparr>
                    in (extractions
                        @ map (\<lambda>doc. Extraction (doc_filename doc)) context_list
                        @ [Completion req],
                        case completion_json P req of
                          Inl e \<Rightarrow> Inl e
                        | Inr (JObj parsed) \<Rightarrow>
                            (let result = setitem parsed ''document_count''
                                            (JInt (int (length doc_texts)));
                                 recommended = get result ''recommended_base'' (JStr '''');
                                 result = setitem result ''base_document_text''
                                            (JStr (base_document_text doc_texts recommended));
                                 result = (if map_of result ''organizational_context'' = None
                                           then setitem result ''organizational_context'' (JStr '''')
                                           else result)
                             in Inr result)
                        | Inr other \<Rightarrow> Inl TypeError))))))"

section \<open>Synthesis generation (document\_generator.py)\<close>

definition generate_from_synthesis ::
  "platform \<Rightarrow> dict \<Rightarrow> string \<Rightarrow> string \<Rightarrow> string \<Rightarrow> string
     \<Rightarrow> string option \<Rightarrow> string option \<Rightarrow> string option \<Rightarrow> string option
     \<Rightarrow> event list \<times> (error + dict)" where
  "generate_from_synthesis P family_analysis base_text user_changes target_year
       organizational_context azure_endpoint azure_api_key azure_deployment api_version =
     (let endpoint = py_or azure_endpoint (environ_get P ''AZURE_OPENAI_ENDPOINT'');
          api_key = py_or azure_api_key (environ_get P ''AZURE_OPENAI_KEY'');
          deployment = py_or azure_deployment
                         (Some (environ_get_default P ''AZURE_OPENAI_DEPLOYMENT_LARGE''
                                  (environ_get_default P ''AZURE_OPENAI_DEPLOYMENT'' ''gpt-4o-mini'')));
          version = py_or api_version
                      (Some (environ_get_default P ''AZURE_OPENAI_API_VERSION'' ''2025-01-01-preview''))
      in if falsy endpoint \<or> falsy api_key then ([], Inl NotConfigured)
         else
           (let target_info = (if target_year \<noteq> [] then target_year else ''next iteration'');
                system_prompt = SYNTHESIS_GENERATION_PROMPT P target_info;
                user_msg =
                  ''COMPARATIVE ANALYSIS:\<newline>'' @ json_dumps P (JObj family_analysis)
                  @ ''\<newline>\<newline>''
                  @ ''MOST RECENT VERSION TEXT:\<newline>'' @ take 8000 base_text @ ''\<newline>\<newline>''
                  @ (if organizational_context \<noteq> []
                     then ORGANIZATIONAL_CONTEXT_HEADING P @ organizational_context @ ''\<newline>\<newline>''
                     else [])
                  @ (if user_changes \<noteq> []
                     then ''USER REQUESTED CHANGES:\<newline>'' @ user_changes @ ''\<newline>\<newline>''
                     else [])
                  @ ''Generate the complete new version.'';
                req = \<lparr>req_endpoint = the endpoint, req_api_key = the api_key,
                       req_api_version = the version, req_model = the deployment,
                       req_system = system_prompt, req_user = user_msg,
                       req_temperature = 3 / 10, req_max_tokens = 4000\<rparr>
            in ([Completion req],
                case completion_json P req of
                  Inl e \<Rightarrow> Inl e
                | Inr (JObj result) \<Rightarrow>
                    (case len (get result ''changes_applied'' (JArr [])) of
                       Inl e \<Rightarrow> Inl e
                     | Inr changes \<Rightarrow>
                         (case len (get result ''flags'' (JArr [])) of
                            Inl e \<Rightarrow> Inl e
                          | Inr flags \<Rightarrow> Inr result))
                | Inr other \<Rightarrow> Inl AttributeError)))"

section \<open>A concrete platform\<close>

text \<open>
  A small platform on which the functions can be run: a decoder for ASCII bytes, a few
  base64 strings, one readable word-processing file, configured credentials, and a
  completion whose answer depends on the prompt it is given: for the family analysis an
  object that names a file nobody sent and miscounts the documents, for the search intent
  an object with five search terms, and the empty object otherwise. It prints \<open>None\<close>
  and the booleans as Python does and any other value that is not a string as three dots,
  and it compares no two lists: the examples have no such values to print or to sort.
\<close>

definition example_platform :: platform where
  "example_platform =
     \<lparr>Document =
        (\<lambda>bs. if bs = [0x50, 0x4B]
              then Some \<lparr>paragraphs = [''Welcome back''], tables = []\<rparr> else None),
      decode_utf8 =
        (\<lambda>bs. if list_all (\<lambda>b. b < 0x80) bs then Some (decode_latin1 bs) else None),
      b64decode =
        map_of [(''aGk='', [0x68, 0x69]), (''b2xk'', [0x6F, 0x6C, 0x64]),
                (''bmV3'', [0x6E, 0x65, 0x77]), (''ICA='', [0x20, 0x20]),
                (''UEs='', [0x50, 0x4B]), (''6Q=='', [0xE9])],
      environ = [(''AZURE_OPENAI_ENDPOINT'', ''https://example.openai.azure.com''),
                 (''AZURE_OPENAI_KEY'', ''secret'')],
      chat_completions_create =
        (\<lambda>req. if req_system req = ''family''
               then Some ''{recommended_base: Letter 2026.txt, document_count: 7}''
               else if req_system req = ''search''
               then Some ''{search_terms: [memo, letter, notice, report, flyer]}''
               else Some ''{}''),
      json_loads =
        map_of [(''{}'', JObj []),
                (''{recommended_base: Letter 2026.txt, document_count: 7}'',
                 JObj [(''recommended_base'', JStr ''Letter 2026.txt''),
                       (''document_count'', JInt 7)]),
                (''{search_terms: [memo, letter, notice, report, flyer]}'',
                 JObj [(''search_terms'',
                        JArr [JStr ''memo'', JStr ''letter'', JStr ''notice'', JStr ''report'',
                              JStr ''flyer''])])],
      json_dumps = (\<lambda>v. ''{}''),
      repr = (\<lambda>v. case v of JNull \<Rightarrow> ''None'' | JBool b \<Rightarrow> (if b then ''True'' else ''False'')
                   | other \<Rightarrow> ''...''),
      rank_lists = (\<lambda>keys. None),
      FAMILY_ANALYSIS_PROMPT = ''family'',
      SEARCH_INTENT_PROMPT = ''search'',
      INTENT_EXTRACTION_PROMPT = ''intent'',
      SYNTHESIS_GENERATION_PROMPT = (\<lambda>target_info. ''synthesis for '' @ target_info),
      ORGANIZATIONAL_CONTEXT_HEADING = ''ORGANIZATIONAL CONTEXT:\<newline>''\<rparr>"


definition letter_2024 :: document where
  "letter_2024 =
     \<lparr>doc_filename = ''Letter 2024.txt'', doc_content = ''b2xk'',
      doc_metadata = Some (JObj [(''created'', JStr ''2024-08-15''),
                                 (''modified'', JStr ''2024-08-15'')])\<rparr>"

definition letter_2025 :: document where
  "letter_2025 =
     \<lparr>doc_filename = ''Letter 2025.txt'', doc_content = ''bmV3'',
      doc_metadata = Some (JObj [(''created'', JStr ''2025-08-14''),
                                 (''modified'', JStr ''2025-09-01'')])\<rparr>"

definition blank_file :: document where
  "blank_file =
     \<lparr>doc_filename = ''Blank.txt'', doc_content = ''ICA='', doc_metadata = None\<rparr>"



section \<open>Properties of the text extraction\<close>

lemma endswith_last:
  "endswith s suffix \<Longrightarrow> suffix \<noteq> [] \<Longrightarrow> s \<noteq> [] \<and> last s = last suffix"
proof -
  assume a: "endswith s suffix" and b: "suffix \<noteq> []"
  from a have le: "length suffix \<le> length s" and d: "drop (length s - length suffix) s = suffix"
    by (simp_all add: endswith_def)
  from b le have ne: "s \<noteq> []" by auto
  from b le ne have "length s - length suffix < length s" by (cases suffix) auto
  then have "last (drop (length s - length suffix) s) = last s" by (rule last_drop)
  with d ne show ?thesis by simp
qed

lemma doc_not_docx: "endswith s ''.doc'' \<Longrightarrow> \<not> endswith s ''.docx''"
  using endswith_last[of s "''.doc''"] endswith_last[of s "''.docx''"] by auto

lemma doc_not_txt: "endswith s ''.doc'' \<Longrightarrow> \<not> endswith s ''.txt''"
  using endswith_last[of s "''.doc''"] endswith_last[of s "''.txt''"] by auto

lemma txt_not_docx: "endswith s ''.txt'' \<Longrightarrow> \<not> endswith s ''.docx''"
  using endswith_last[of s "''.txt''"] endswith_last[of s "''.docx''"] by auto

text \<open>
  C5: \<open>extract_text\<close> dispatches on the suffix of the lowercased filename. It fails,
  and then with \<open>UnsupportedFormat\<close>, exactly when the lowercased filename ends with
  \<open>.doc\<close> (which excludes \<open>.docx\<close>); for a \<open>.txt\<close> suffix and for every unknown suffix it
  returns the UTF-8 decoding of the bytes, and their Latin-1 decoding when the UTF-8
  decoding fails.
\<close>

theorem extract_text_dispatch:
  "(extract_text P file_bytes filename = Inl UnsupportedFormat
      \<longleftrightarrow> endswith (lower filename) ''.doc'')
   \<and> (\<forall>e. extract_text P file_bytes filename = Inl e \<longrightarrow> e = UnsupportedFormat)
   \<and> (endswith (lower filename) ''.txt''
        \<or> (\<not> endswith (lower filename) ''.docx'' \<and> \<not> endswith (lower filename) ''.doc'')
      \<longrightarrow> extract_text P file_bytes filename =
            Inr (case decode_utf8 P file_bytes of
                   Some text \<Rightarrow> text
                 | None \<Rightarrow> decode_latin1 file_bytes))"
  using doc_not_docx[of "lower filename"] doc_not_txt[of "lower filename"]
        txt_not_docx[of "lower filename"]
  by (auto simp: extract_text_def extract_text_from_txt_def Let_def)

theorem extract_text_dispatch_witness:
  "extract_text example_platform [0x68, 0x69] ''notes.DOC'' = Inl UnsupportedFormat
   \<and> endswith (lower ''Notes.TXT'') ''.txt''
   \<and> extract_text example_platform [0x68, 0x69] ''Notes.TXT'' = Inr ''hi''
   \<and> extract_text example_platform [0xE9] ''README'' = Inr [CHR 0xE9]"
proof -
  have a: "endswith (lower ''notes.DOC'') ''.doc''" by code_simp
  have b: "endswith (lower ''Notes.TXT'') ''.txt''" by code_simp
  have c: "\<not> endswith (lower ''README'') ''.docx'' \<and> \<not> endswith (lower ''README'') ''.doc''"
    by code_simp
  have d: "(case decode_utf8 example_platform [0x68, 0x69] of
              Some text \<Rightarrow> text | None \<Rightarrow> decode_latin1 [0x68, 0x69]) = ''hi''"
    by code_simp
  have e: "(case decode_utf8 example_platform [0xE9] of
              Some text \<Rightarrow> text | None \<Rightarrow> decode_latin1 [0xE9]) = [CHR 0xE9]"
    by code_simp
  from a extract_text_dispatch [of example_platform "[0x68, 0x69]" "''notes.DOC''"]
  have 1: "extract_text example_platform [0x68, 0x69] ''notes.DOC'' = Inl UnsupportedFormat"
    by blast
  from b d extract_text_dispatch [of example_platform "[0x68, 0x69]" "''Notes.TXT''"]
  have 2: "extract_text example_platform [0x68, 0x69] ''Notes.TXT'' = Inr ''hi''"
    by simp
  from c e extract_text_dispatch [of example_platform "[0xE9]" "''README''"]
  have 3: "extract_text example_platform [0xE9] ''README'' = Inr [CHR 0xE9]"
    by simp
  from 1 b 2 3 show ?thesis by blast
qed

section \<open>Properties of the batch extraction\<close>

lemma extract_documents_append:
  "extract_documents P budget (xs @ ys) =
     extract_documents P budget xs @ extract_documents P budget ys"
  by (induction xs) (simp_all split: option.splits)

lemma analysis_depends_on_extracted:
  "extract_documents P 6000 documents = extract_documents P 6000 documents' \<Longrightarrow>
   snd (analyze_document_family P documents user_context context_documents
          azure_endpoint azure_api_key azure_deployment api_version)
   = snd (analyze_document_family P documents' user_context context_documents
          azure_endpoint azure_api_key azure_deployment api_version)"
  by (simp add: analyze_document_family_def Let_def split: list.splits sum.splits)

text \<open>
  C10: for a filename whose lowercased form ends with \<open>.docx\<close>, \<open>extract_text\<close> always
  returns a text and never fails; when the word-processing bytes cannot be read it returns
  the empty string. In the batch analysis such a document is dropped: the extraction loop
  keeps nothing of it, and the analysis returns what it returns without the document, so
  no failure of that document reaches the caller.
\<close>

theorem corrupt_docx_dropped:
  assumes "endswith (lower (doc_filename doc)) ''.docx''"
  shows "(\<forall>file_bytes. \<exists>text. extract_text P file_bytes (doc_filename doc) = Inr text)
       \<and> (\<forall>file_bytes. Document P file_bytes = None
             \<longrightarrow> extract_text P file_bytes (doc_filename doc) = Inr [])
       \<and> (\<forall>file_bytes. b64decode P (doc_content doc) = Some file_bytes
                         \<and> Document P file_bytes = None
             \<longrightarrow> extract_document P budget doc = None
               \<and> extract_documents P budget (before @ doc # after)
                   = extract_documents P budget (before @ after)
               \<and> snd (analyze_document_family P (before @ doc # after) user_context
                         context_documents azure_endpoint azure_api_key azure_deployment
                         api_version)
                   = snd (analyze_document_family P (before @ after) user_context
                         context_documents azure_endpoint azure_api_key azure_deployment
                         api_version))"
proof -
  have total: "\<And>file_bytes. extract_text P file_bytes (doc_filename doc)
                 = Inr (extract_text_from_docx P file_bytes)"
    using assms by (simp add: extract_text_def)
  have empty: "\<And>file_bytes. Document P file_bytes = None
                 \<Longrightarrow> extract_text P file_bytes (doc_filename doc) = Inr []"
    by (simp add: total extract_text_from_docx_def)
  have dropped: "extract_document P b doc = None"
    if "b64decode P (doc_content doc) = Some file_bytes" "Document P file_bytes = None"
    for file_bytes b
    using that empty [of file_bytes] by (simp add: extract_document_def strip_def)
  have same: "extract_documents P b (before @ doc # after)
                = extract_documents P b (before @ after)"
    if "b64decode P (doc_content doc) = Some file_bytes" "Document P file_bytes = None"
    for file_bytes b
    using dropped [OF that] by (simp add: extract_documents_append)
  show ?thesis
    using total empty dropped same analysis_depends_on_extracted
    by blast
qed

theorem corrupt_docx_dropped_witness:
  "endswith (lower ''Letter 2024.DOCX'') ''.docx''
   \<and> extract_text example_platform [0x68, 0x69] ''Letter 2024.DOCX'' = Inr []
   \<and> snd (analyze_document_family example_platform
             [\<lparr>doc_filename = ''Letter 2025.txt'', doc_content = ''aGk='', doc_metadata = None\<rparr>,
              \<lparr>doc_filename = ''Letter 2024.DOCX'', doc_content = ''aGk='', doc_metadata = None\<rparr>]
             [] None None None None None)
     = single_document_stub
         \<lparr>dt_filename = ''Letter 2025.txt'', dt_text = ''hi'', dt_metadata = JObj []\<rparr>
   \<and> (\<exists>result.
         single_document_stub
           \<lparr>dt_filename = ''Letter 2025.txt'', dt_text = ''hi'', dt_metadata = JObj []\<rparr>
         = Inr result
       \<and> map_of result ''recommended_base'' = Some (JStr ''Letter 2025.txt''))"
proof -
  let ?good = "\<lparr>doc_filename = ''Letter 2025.txt'', doc_content = ''aGk='', doc_metadata = None\<rparr>"
  let ?bad = "\<lparr>doc_filename = ''Letter 2024.DOCX'', doc_content = ''aGk='', doc_metadata = None\<rparr>"
  let ?dt = "\<lparr>dt_filename = ''Letter 2025.txt'', dt_text = ''hi'', dt_metadata = JObj []\<rparr>"
  have a: "endswith (lower (doc_filename ?bad)) ''.docx''" by code_simp
  have b: "b64decode example_platform (doc_content ?bad) = Some [0x68, 0x69]" by code_simp
  have c: "Document example_platform [0x68, 0x69] = None" by code_simp
  have d: "snd (analyze_document_family example_platform ([?good] @ []) [] None None None None None)
           = single_document_stub ?dt"
    by code_simp
  have r: "\<exists>result. single_document_stub ?dt = Inr result
             \<and> map_of result ''recommended_base'' = Some (JStr ''Letter 2025.txt'')"
    by (simp add: single_document_stub_def metadata_get_def)
  note t = corrupt_docx_dropped [OF a, of example_platform 6000 "[?good]" "[]" "[]" None None None
                                   None None]
  from t c have e: "extract_text example_platform [0x68, 0x69] (doc_filename ?bad) = Inr []"
    by blast
  from t b c have
    "snd (analyze_document_family example_platform ([?good] @ ?bad # []) [] None None None None None)
     = snd (analyze_document_family example_platform ([?good] @ []) [] None None None None None)"
    by blast
  with d have f:
    "snd (analyze_document_family example_platform ([?good] @ ?bad # []) [] None None None None None)
     = single_document_stub ?dt"
    by simp
  from a e f r show ?thesis by simp
qed

section \<open>Properties of the field merging\<close>

lemma map_of_setitem: "map_of (setitem d key v) = (map_of d)(key \<mapsto> v)"
  by (simp add: setitem_def update_conv')









section \<open>Properties of the credentials check\<close>

lemma falsy_py_or: "falsy (py_or a b) \<longleftrightarrow> falsy a \<and> falsy b"
  by (simp add: falsy_def py_or_def split: option.splits)

lemma configured_check:
  assumes "\<not> falsy azure_endpoint \<or> \<not> falsy (environ_get P ''AZURE_OPENAI_ENDPOINT'')"
    and "\<not> falsy azure_api_key \<or> \<not> falsy (environ_get P ''AZURE_OPENAI_KEY'')"
  shows "\<not> (falsy (py_or azure_endpoint (environ_get P ''AZURE_OPENAI_ENDPOINT''))
           \<or> falsy (py_or azure_api_key (environ_get P ''AZURE_OPENAI_KEY'')))"
  using assms by (simp add: falsy_py_or)

lemma example_configured:
  "\<not> falsy None \<or> \<not> falsy (environ_get example_platform ''AZURE_OPENAI_ENDPOINT'')"
  "\<not> falsy None \<or> \<not> falsy (environ_get example_platform ''AZURE_OPENAI_KEY'')"
  by (simp_all add: falsy_def environ_get_def example_platform_def)

text \<open>
  C8: when the endpoint or the API key is absent (neither the argument nor the environment
  variable holds a non-empty string), each operation that would ask for a completion
  (\<open>analyze_document_family\<close>, \<open>generate_from_synthesis\<close>, \<open>extract_search_intent\<close>,
  \<open>extract_intent\<close>) fails with \<open>NotConfigured\<close>, and nothing has happened before: no
  document has been decoded or extracted and no completion has been requested.
\<close>

theorem not_configured_fails_first:
  assumes "(falsy azure_endpoint \<and> falsy (environ_get P ''AZURE_OPENAI_ENDPOINT''))
         \<or> (falsy azure_api_key \<and> falsy (environ_get P ''AZURE_OPENAI_KEY''))"
  shows "analyze_document_family P documents user_context context_documents
           azure_endpoint azure_api_key azure_deployment api_version = ([], Inl NotConfigured)
       \<and> generate_from_synthesis P family_analysis base_text user_changes target_year
           organizational_context azure_endpoint azure_api_key azure_deployment api_version
           = ([], Inl NotConfigured)
       \<and> extract_search_intent P user_prompt azure_endpoint azure_api_key azure_deployment
           api_version = ([], Inl NotConfigured)
       \<and> extract_intent P user_prompt azure_endpoint azure_api_key azure_deployment
           api_version = ([], Inl NotConfigured)"
proof -
  from assms have
    "falsy (py_or azure_endpoint (environ_get P ''AZURE_OPENAI_ENDPOINT''))
     \<or> falsy (py_or azure_api_key (environ_get P ''AZURE_OPENAI_KEY''))"
    by (simp add: falsy_py_or)
  then show ?thesis
    by (simp add: analyze_document_family_def generate_from_synthesis_def
        extract_search_intent_def extract_intent_def Let_def)
qed

theorem not_configured_fails_first_witness:
  "falsy (Some '''') \<and> falsy (environ_get (example_platform\<lparr>environ := []\<rparr>) ''AZURE_OPENAI_ENDPOINT'')
   \<and> analyze_document_family (example_platform\<lparr>environ := []\<rparr>)
        [\<lparr>doc_filename = ''Letter 2025.txt'', doc_content = ''aGk='', doc_metadata = None\<rparr>]
        [] None (Some '''') (Some ''secret'') None None = ([], Inl NotConfigured)
   \<and> generate_from_synthesis (example_platform\<lparr>environ := []\<rparr>) [] ''hi'' [] [] []
        (Some '''') (Some ''secret'') None None = ([], Inl NotConfigured)
   \<and> extract_search_intent (example_platform\<lparr>environ := []\<rparr>) ''find the memo''
        (Some '''') (Some ''secret'') None None = ([], Inl NotConfigured)
   \<and> extract_intent (example_platform\<lparr>environ := []\<rparr>) ''find the memo''
        (Some '''') (Some ''secret'') None None = ([], Inl NotConfigured)"
proof -
  have a: "falsy (Some '''')" by (simp add: falsy_def)
  have b: "falsy (environ_get (example_platform\<lparr>environ := []\<rparr>) ''AZURE_OPENAI_ENDPOINT'')"
    by (simp add: falsy_def environ_get_def)
  from a b have c: "(falsy (Some '''')
        \<and> falsy (environ_get (example_platform\<lparr>environ := []\<rparr>) ''AZURE_OPENAI_ENDPOINT''))
      \<or> (falsy (Some ''secret'')
        \<and> falsy (environ_get (example_platform\<lparr>environ := []\<rparr>) ''AZURE_OPENAI_KEY''))"
    by blast
  from a b not_configured_fails_first [OF c] show ?thesis by blast
qed

section \<open>Properties of the search intent\<close>



section \<open>Properties of the sort by creation date\<close>

text \<open>What a sort that returns has read, and what it returns on keys that are strings.\<close>

lemma metadata_get_dict:
  "metadata_get metadata key dflt = Inr v \<Longrightarrow> \<exists>d. metadata = JObj d"
  by (cases metadata) (simp_all add: metadata_get_def)

lemma created_keys_length:
  "created_keys xs = Inr keys \<Longrightarrow> length keys = length xs"
  by (induction xs arbitrary: keys) (auto split: sum.splits)

lemma created_keys_dicts:
  "created_keys xs = Inr keys \<Longrightarrow> \<forall>d \<in> set xs. \<exists>m. dt_metadata d = JObj m"
proof (induction xs arbitrary: keys)
  case Nil
  then show ?case by simp
next
  case (Cons d xs)
  from Cons.prems obtain key rest where k: "created_key d = Inr key"
    and r: "created_keys xs = Inr rest"
    by (auto split: sum.splits)
  from k have "\<exists>m. dt_metadata d = JObj m"
    unfolding created_key_def by (rule metadata_get_dict)
  with Cons.IH [OF r] show ?case by simp
qed



lemma those_length:
  "those xs = Some ys \<Longrightarrow> length ys = length xs"
  by (induction xs arbitrary: ys) (auto split: option.splits)






lemma mset_sorted_zip:
  fixes ks :: "'k::linorder list"
  shows "length ks = length xs \<Longrightarrow> mset (map snd (sort_key fst (zip ks xs))) = mset xs"
proof -
  assume l: "length ks = length xs"
  have "mset (map snd (sort_key fst (zip ks xs))) = image_mset snd (mset (zip ks xs))"
    by (simp only: mset_map mset_sort)
  also have "\<dots> = mset (map snd (zip ks xs))" by (simp only: mset_map)
  also have "\<dots> = mset xs" using l by (simp only: map_snd_zip)
  finally show ?thesis .
qed

lemma mset_sorted_enumerate:
  fixes rank :: "nat \<Rightarrow> nat"
  shows "mset (map snd (sort_key (\<lambda>(i, x). rank i) (enumerate 0 xs))) = mset xs"
proof -
  have "mset (map snd (sort_key (\<lambda>(i, x). rank i) (enumerate 0 xs)))
        = image_mset snd (mset (enumerate 0 xs))"
    by (simp only: mset_map mset_sort)
  also have "\<dots> = mset (map snd (enumerate 0 xs))" by (simp only: mset_map)
  also have "\<dots> = mset xs" by (simp only: map_snd_enumerate)
  finally show ?thesis .
qed

lemma list_sort_mset:
  assumes "length keys = length xs" and "list_sort P keys xs = Inr ys"
  shows "mset ys = mset xs"
proof (cases "length xs < 2")
  case True
  with assms(2) show ?thesis by (simp add: list_sort_def)
next
  case False
  show ?thesis
  proof (cases "those (map str_key keys)")
    case (Some ss)
    from those_length [OF Some] assms(1) have l: "length ss = length xs" by simp
    from assms(2) False Some have "ys = map snd (sort_key fst (zip ss xs))"
      by (simp add: list_sort_def del: sort_key_simps)
    then show ?thesis by (simp only: mset_sorted_zip [OF l])
  next
    case None
    note n1 = None
    show ?thesis
    proof (cases "those (map num_key keys)")
      case (Some ns)
      from those_length [OF Some] assms(1) have l: "length ns = length xs" by simp
      from assms(2) False n1 Some have "ys = map snd (sort_key fst (zip ns xs))"
        by (simp add: list_sort_def del: sort_key_simps)
      then show ?thesis by (simp only: mset_sorted_zip [OF l])
    next
      case None
      note n2 = None
      show ?thesis
      proof (cases "those (map list_key keys)")
        case None
        with assms(2) False n1 n2 show ?thesis by (simp add: list_sort_def)
      next
        case (Some ls)
        show ?thesis
        proof (cases "rank_lists P ls")
          case None
          with assms(2) False n1 n2 Some show ?thesis by (simp add: list_sort_def)
        next
          case (Some rank)
          from assms(2) False n1 n2 \<open>those (map list_key keys) = Some ls\<close> Some
          have "ys = map snd (sort_key (\<lambda>(i, x). rank i) (enumerate 0 xs))"
            by (simp add: list_sort_def del: sort_key_simps)
          then show ?thesis by (simp only: mset_sorted_enumerate)
        qed
      qed
    qed
  qed
qed

lemma sort_by_created_mset:
  assumes "sort_by_created P xs = Inr ys"
  shows "mset ys = mset xs"
proof -
  from assms obtain keys where k: "created_keys xs = Inr keys"
    and s: "list_sort P keys xs = Inr ys"
    by (auto simp: sort_by_created_def split: sum.splits)
  from list_sort_mset [OF created_keys_length [OF k] s] show ?thesis .
qed

lemma sort_by_created_dicts:
  assumes "sort_by_created P xs = Inr ys"
  shows "\<forall>d \<in> set ys. \<exists>m. dt_metadata d = JObj m"
proof -
  from assms obtain keys where k: "created_keys xs = Inr keys"
    by (auto simp: sort_by_created_def split: sum.splits)
  from sort_by_created_mset [OF assms] have "set ys = set xs" by (rule mset_eq_setD)
  with created_keys_dicts [OF k] show ?thesis by simp
qed

lemma document_sections_dicts:
  "\<forall>d \<in> set xs. \<exists>m. dt_metadata d = JObj m
   \<Longrightarrow> \<exists>sections. document_sections P i xs = Inr sections"
proof (induction xs arbitrary: i)
  case Nil
  then show ?case by simp
next
  case (Cons d xs)
  from Cons.prems obtain m where m: "dt_metadata d = JObj m" by auto
  from Cons.prems have "\<forall>d \<in> set xs. \<exists>m. dt_metadata d = JObj m" by simp
  from Cons.IH [OF this, of "Suc i"] obtain rest where
    r: "document_sections P (Suc i) xs = Inr rest" ..
  show ?case by (simp add: m r metadata_get_def)
qed

lemma sorted_sections:
  assumes "sort_by_created P xs = Inr ys"
  shows "\<exists>sections. document_sections P i ys = Inr sections"
  using sort_by_created_dicts [OF assms] by (rule document_sections_dicts)

section \<open>Properties of the family analysis\<close>

text \<open>What the loop keeps of one document, in terms of the calls it makes.\<close>

lemma extract_document_None:
  "extract_document P budget doc = None \<longleftrightarrow>
     (\<forall>content_bytes text.
        b64decode P (doc_content doc) = Some content_bytes
        \<and> extract_text P content_bytes (doc_filename doc) = Inr text
        \<longrightarrow> strip text = [])"
  by (auto simp: extract_document_def split: option.splits sum.splits)


lemma extract_documents_filter:
  "extract_documents P budget documents =
     map (\<lambda>doc. the (extract_document P budget doc))
       (filter (\<lambda>doc. extract_document P budget doc \<noteq> None) documents)"
  by (induction documents) (auto split: option.splits)

lemma extract_documents_none:
  "(\<forall>doc \<in> set documents. extract_document P budget doc = None)
   \<Longrightarrow> extract_documents P budget documents = []"
  by (induction documents) simp_all

lemma length_extract_documents:
  "length (extract_documents P budget documents)
     = length (filter (\<lambda>doc. extract_document P budget doc \<noteq> None) documents)"
  by (simp add: extract_documents_filter)

lemma analyze_none:
  assumes "\<not> (falsy (py_or azure_endpoint (environ_get P ''AZURE_OPENAI_ENDPOINT''))
           \<or> falsy (py_or azure_api_key (environ_get P ''AZURE_OPENAI_KEY'')))"
    and "extract_documents P 6000 documents = []"
  shows "analyze_document_family P documents user_context context_documents
           azure_endpoint azure_api_key azure_deployment api_version
         = (map (\<lambda>doc. Extraction (doc_filename doc)) documents, Inl NoExtractableText)"
  unfolding analyze_document_family_def Let_def
  by (simp only: assms if_False list.case)


text \<open>The analysis of two or more extracted documents whose sort raises.\<close>

lemma analyze_unsorted:
  assumes "\<not> (falsy (py_or azure_endpoint (environ_get P ''AZURE_OPENAI_ENDPOINT''))
           \<or> falsy (py_or azure_api_key (environ_get P ''AZURE_OPENAI_KEY'')))"
    and "extract_documents P 6000 documents = survivors"
    and "2 \<le> length survivors"
    and "sort_by_created P survivors = Inl e"
  shows "analyze_document_family P documents user_context context_documents
           azure_endpoint azure_api_key azure_deployment api_version
         = (map (\<lambda>doc. Extraction (doc_filename doc)) documents, Inl e)"
proof -
  from assms(3) obtain d1 d2 ds where s: "survivors = d1 # d2 # ds"
    by (cases survivors rule: list.exhaust; (cases "tl survivors"; simp))
  show ?thesis
    unfolding analyze_document_family_def Let_def assms(2) s
    by (simp only: assms(1) if_False list.case assms(4)[unfolded s] sum.case)
qed

text \<open>The analysis of two or more extracted documents, as a function of the sorted texts.\<close>

lemma analyze_many_eq:
  assumes "\<not> (falsy (py_or azure_endpoint (environ_get P ''AZURE_OPENAI_ENDPOINT''))
           \<or> falsy (py_or azure_api_key (environ_get P ''AZURE_OPENAI_KEY'')))"
    and "extract_documents P 6000 documents = survivors"
    and "2 \<le> length survivors"
    and "sort_by_created P survivors = Inr doc_texts"
    and "document_sections P 1 doc_texts = Inr sections"
    and "context_list = (case context_documents of None \<Rightarrow> [] | Some ds \<Rightarrow> ds)"
  shows "analyze_document_family P documents user_context context_documents
             azure_endpoint azure_api_key azure_deployment api_version
    = (let req =
         \<lparr>req_endpoint = the (py_or azure_endpoint (environ_get P ''AZURE_OPENAI_ENDPOINT'')),
          req_api_key = the (py_or azure_api_key (environ_get P ''AZURE_OPENAI_KEY'')),
          req_api_version =
            the (py_or api_version
                   (Some (environ_get_default P ''AZURE_OPENAI_API_VERSION''
                            ''2025-01-01-preview''))),
          req_model =
            the (py_or azure_deployment
                   (Some (environ_get_default P ''AZURE_OPENAI_DEPLOYMENT_LARGE''
                            (environ_get_default P ''AZURE_OPENAI_DEPLOYMENT'' ''gpt-4o-mini'')))),
          req_system = FAMILY_ANALYSIS_PROMPT P,
          req_user =
            ''Analyze these '' @ str (length doc_texts) @ '' related documents:\<newline>''
            @ ((sections
                @ (if user_context \<noteq> [] then ''\<newline>\<newline>User context: '' @ user_context
                   else []))
               @ (if extract_documents P 4000 context_list \<noteq> []
                  then ''\<newline>\<newline>=== ORGANIZATIONAL CONTEXT DOCUMENTS ===''
                       @ context_sections 1 (extract_documents P 4000 context_list)
                  else [])),
          req_temperature = 2 / 10, req_max_tokens = 3000\<rparr>
       in (map (\<lambda>doc. Extraction (doc_filename doc)) documents
           @ map (\<lambda>doc. Extraction (doc_filename doc)) context_list
           @ [Completion req],
           case completion_json P req of
             Inl e \<Rightarrow> Inl e
           | Inr (JObj parsed) \<Rightarrow>
               (let result = setitem parsed ''document_count'' (JInt (int (length doc_texts)));
                    recommended = get result ''recommended_base'' (JStr []);
                    result = setitem result ''base_document_text''
                               (JStr (base_document_text doc_texts recommended))
                in Inr (if map_of result ''organizational_context'' = None
                        then setitem result ''organizational_context'' (JStr [])
                        else result))
           | Inr other \<Rightarrow> Inl TypeError))"
proof -
  from assms(3) obtain d1 d2 ds where s: "survivors = d1 # d2 # ds"
    by (cases survivors rule: list.exhaust; (cases "tl survivors"; simp))
  show ?thesis
    unfolding analyze_document_family_def Let_def assms(2) s
    by (simp only: assms(1) if_False list.case assms(4)[unfolded s] sum.case assms(5)
        assms(6)[symmetric])
qed

lemma analyze_many:
  assumes "\<not> (falsy (py_or azure_endpoint (environ_get P ''AZURE_OPENAI_ENDPOINT''))
           \<or> falsy (py_or azure_api_key (environ_get P ''AZURE_OPENAI_KEY'')))"
    and "extract_documents P 6000 documents = survivors"
    and "2 \<le> length survivors"
    and "sort_by_created P survivors = Inr doc_texts"
    and "document_sections P 1 doc_texts = Inr sections"
    and "context_list = (case context_documents of None \<Rightarrow> [] | Some ds \<Rightarrow> ds)"
  shows "\<exists>req.
      fst (analyze_document_family P documents user_context context_documents
             azure_endpoint azure_api_key azure_deployment api_version)
        = map (\<lambda>doc. Extraction (doc_filename doc)) documents
          @ map (\<lambda>doc. Extraction (doc_filename doc)) context_list
          @ [Completion req]
    \<and> req_system req = FAMILY_ANALYSIS_PROMPT P
    \<and> req_user req =
        ''Analyze these '' @ str (length doc_texts) @ '' related documents:\<newline>''
        @ sections
        @ (if user_context \<noteq> [] then ''\<newline>\<newline>User context: '' @ user_context else [])
        @ (if extract_documents P 4000 context_list \<noteq> []
           then ''\<newline>\<newline>=== ORGANIZATIONAL CONTEXT DOCUMENTS ===''
                @ context_sections 1 (extract_documents P 4000 context_list)
           else [])
    \<and> snd (analyze_document_family P documents user_context context_documents
             azure_endpoint azure_api_key azure_deployment api_version)
        = (case completion_json P req of
             Inl e \<Rightarrow> Inl e
           | Inr (JObj parsed) \<Rightarrow>
               (let result = setitem parsed ''document_count'' (JInt (int (length doc_texts)));
                    recommended = get result ''recommended_base'' (JStr []);
                    result = setitem result ''base_document_text''
                               (JStr (base_document_text doc_texts recommended))
                in Inr (if map_of result ''organizational_context'' = None
                        then setitem result ''organizational_context'' (JStr [])
                        else result))
           | Inr other \<Rightarrow> Inl TypeError)"
  unfolding analyze_many_eq [OF assms] Let_def
  apply (rule exI)
  apply (intro conjI)
     apply (simp only: fst_conv)
    apply simp
   apply simp
  apply (simp only: snd_conv)
  done






text \<open>
  C7: with credentials present, when no input document yields a text that is non-empty
  after stripping (the empty list included), \<open>analyze_document_family\<close> fails with
  \<open>NoExtractableText\<close>, and no completion is requested.
\<close>

theorem no_extractable_text:
  assumes "\<not> falsy azure_endpoint \<or> \<not> falsy (environ_get P ''AZURE_OPENAI_ENDPOINT'')"
    and "\<not> falsy azure_api_key \<or> \<not> falsy (environ_get P ''AZURE_OPENAI_KEY'')"
    and "\<forall>doc \<in> set documents. \<forall>content_bytes text.
           b64decode P (doc_content doc) = Some content_bytes
           \<and> extract_text P content_bytes (doc_filename doc) = Inr text
           \<longrightarrow> strip text = []"
  shows "analyze_document_family P documents user_context context_documents
           azure_endpoint azure_api_key azure_deployment api_version
         = (map (\<lambda>doc. Extraction (doc_filename doc)) documents, Inl NoExtractableText)
       \<and> (\<forall>req. Completion req
             \<notin> set (fst (analyze_document_family P documents user_context context_documents
                            azure_endpoint azure_api_key azure_deployment api_version)))"
proof -
  from assms(3) have "\<forall>doc \<in> set documents. extract_document P 6000 doc = None"
    by (simp add: extract_document_None)
  then have "extract_documents P 6000 documents = []"
    by (rule extract_documents_none)
  from analyze_none [OF configured_check [OF assms(1,2)] this]
  have eq: "analyze_document_family P documents user_context context_documents
           azure_endpoint azure_api_key azure_deployment api_version
         = (map (\<lambda>doc. Extraction (doc_filename doc)) documents, Inl NoExtractableText)" .
  show ?thesis unfolding eq by auto
qed

theorem no_extractable_text_witness:
  "extract_document example_platform 6000 blank_file = None
   \<and> analyze_document_family example_platform [blank_file] [] None None None None None
     = ([Extraction ''Blank.txt''], Inl NoExtractableText)"
proof -
  have c1: "\<not> falsy None \<or> \<not> falsy (environ_get example_platform ''AZURE_OPENAI_ENDPOINT'')"
    by (simp add: falsy_def environ_get_def example_platform_def)
  have c2: "\<not> falsy None \<or> \<not> falsy (environ_get example_platform ''AZURE_OPENAI_KEY'')"
    by (simp add: falsy_def environ_get_def example_platform_def)
  have n: "extract_document example_platform 6000 blank_file = None"
    by code_simp
  then have "\<forall>doc \<in> set [blank_file]. \<forall>content_bytes text.
           b64decode example_platform (doc_content doc) = Some content_bytes
           \<and> extract_text example_platform content_bytes (doc_filename doc) = Inr text
           \<longrightarrow> strip text = []"
    by (simp add: extract_document_None)
  from no_extractable_text [OF c1 c2 this, of "[]" None None None]
  have "analyze_document_family example_platform [blank_file] [] None None None None None
        = (map (\<lambda>doc. Extraction (doc_filename doc)) [blank_file], Inl NoExtractableText)"
    by blast
  then have "analyze_document_family example_platform [blank_file] [] None None None None None
        = ([Extraction ''Blank.txt''], Inl NoExtractableText)"
    by (simp add: blank_file_def)
  with n show ?thesis by simp
qed




text \<open>
  C3: with credentials present and two or more documents that survive the extraction,
  every result that is returned has as its \<open>document_count\<close> the number of surviving
  documents, whatever the length of the input list and whatever count the answer held.
  A result is returned whenever the survivors can be sorted and the answer parses to an
  object: one completion is then requested, after the extractions. (The sort raises
  before any completion is requested when the metadata of a survivor is not a dict or the
  \<open>created\<close> values cannot be compared; nothing is returned then.)
\<close>

theorem document_count_is_survivor_count:
  assumes "\<not> falsy azure_endpoint \<or> \<not> falsy (environ_get P ''AZURE_OPENAI_ENDPOINT'')"
    and "\<not> falsy azure_api_key \<or> \<not> falsy (environ_get P ''AZURE_OPENAI_KEY'')"
    and "2 \<le> length (filter (\<lambda>doc. extract_document P 6000 doc \<noteq> None) documents)"
  shows "(\<forall>result.
        snd (analyze_document_family P documents user_context context_documents
               azure_endpoint azure_api_key azure_deployment api_version) = Inr result
        \<longrightarrow> map_of result ''document_count''
              = Some (JInt (int (length
                  (filter (\<lambda>doc. extract_document P 6000 doc \<noteq> None) documents)))))
    \<and> (\<forall>doc_texts.
        sort_by_created P (extract_documents P 6000 documents) = Inr doc_texts
        \<longrightarrow> (\<exists>req.
              fst (analyze_document_family P documents user_context context_documents
                     azure_endpoint azure_api_key azure_deployment api_version)
                = map (\<lambda>doc. Extraction (doc_filename doc)) documents
                  @ map (\<lambda>doc. Extraction (doc_filename doc))
                      (case context_documents of None \<Rightarrow> [] | Some ds \<Rightarrow> ds)
                  @ [Completion req]
            \<and> (\<forall>parsed. completion_json P req = Inr (JObj parsed)
                  \<longrightarrow> (\<exists>result.
                        snd (analyze_document_family P documents user_context
                               context_documents azure_endpoint azure_api_key
                               azure_deployment api_version) = Inr result
                      \<and> map_of result ''document_count''
                          = Some (JInt (int (length
                              (filter (\<lambda>doc. extract_document P 6000 doc \<noteq> None)
                                 documents))))))))"
proof -
  let ?survivors = "extract_documents P 6000 documents"
  let ?n = "length (filter (\<lambda>doc. extract_document P 6000 doc \<noteq> None) documents)"
  let ?snd = "snd (analyze_document_family P documents user_context context_documents
                     azure_endpoint azure_api_key azure_deployment api_version)"
  note configured = configured_check [OF assms(1,2)]
  from assms(3) have two: "2 \<le> length ?survivors"
    by (simp add: length_extract_documents)
  have sorted_case: "\<exists>req.
          fst (analyze_document_family P documents user_context context_documents
                 azure_endpoint azure_api_key azure_deployment api_version)
            = map (\<lambda>doc. Extraction (doc_filename doc)) documents
              @ map (\<lambda>doc. Extraction (doc_filename doc))
                  (case context_documents of None \<Rightarrow> [] | Some ds \<Rightarrow> ds)
              @ [Completion req]
        \<and> ?snd = (case completion_json P req of
             Inl e \<Rightarrow> Inl e
           | Inr (JObj parsed) \<Rightarrow>
               (let result = setitem parsed ''document_count'' (JInt (int ?n));
                    recommended = get result ''recommended_base'' (JStr []);
                    result = setitem result ''base_document_text''
                               (JStr (base_document_text doc_texts recommended))
                in Inr (if map_of result ''organizational_context'' = None
                        then setitem result ''organizational_context'' (JStr [])
                        else result))
           | Inr other \<Rightarrow> Inl TypeError)"
    if sorted: "sort_by_created P ?survivors = Inr doc_texts" for doc_texts
  proof -
    from sort_by_created_mset [OF sorted] have "length doc_texts = length ?survivors"
      by (rule mset_eq_length)
    then have n: "length doc_texts = ?n"
      by (simp only: length_extract_documents)
    from sorted_sections [OF sorted, of 1] obtain sections where
      s: "document_sections P 1 doc_texts = Inr sections" ..
    from analyze_many [OF configured refl two sorted s refl,
        of user_context context_documents azure_deployment api_version]
    show ?thesis unfolding n by blast
  qed
  have count: "map_of result ''document_count'' = Some (JInt (int ?n))"
    if r: "?snd = Inr result" for result
  proof (cases "sort_by_created P ?survivors")
    case (Inl e)
    from analyze_unsorted [OF configured refl two Inl,
        of user_context context_documents azure_deployment api_version] r
    show ?thesis by simp
  next
    case (Inr doc_texts)
    from sorted_case [OF Inr] obtain req where
      s: "?snd = (case completion_json P req of
             Inl e \<Rightarrow> Inl e
           | Inr (JObj parsed) \<Rightarrow>
               (let result = setitem parsed ''document_count'' (JInt (int ?n));
                    recommended = get result ''recommended_base'' (JStr []);
                    result = setitem result ''base_document_text''
                               (JStr (base_document_text doc_texts recommended))
                in Inr (if map_of result ''organizational_context'' = None
                        then setitem result ''organizational_context'' (JStr [])
                        else result))
           | Inr other \<Rightarrow> Inl TypeError)"
      by blast
    from r [unfolded s] show ?thesis
      by (auto simp: Let_def map_of_setitem split: sum.splits json.splits if_splits)
  qed
  have returned: "\<exists>req.
          fst (analyze_document_family P documents user_context context_documents
                 azure_endpoint azure_api_key azure_deployment api_version)
            = map (\<lambda>doc. Extraction (doc_filename doc)) documents
              @ map (\<lambda>doc. Extraction (doc_filename doc))
                  (case context_documents of None \<Rightarrow> [] | Some ds \<Rightarrow> ds)
              @ [Completion req]
        \<and> (\<forall>parsed. completion_json P req = Inr (JObj parsed)
              \<longrightarrow> (\<exists>result. ?snd = Inr result
                  \<and> map_of result ''document_count'' = Some (JInt (int ?n))))"
    if sorted: "sort_by_created P ?survivors = Inr doc_texts" for doc_texts
  proof -
    from sorted_case [OF sorted] obtain req where
      f: "fst (analyze_document_family P documents user_context context_documents
                 azure_endpoint azure_api_key azure_deployment api_version)
            = map (\<lambda>doc. Extraction (doc_filename doc)) documents
              @ map (\<lambda>doc. Extraction (doc_filename doc))
                  (case context_documents of None \<Rightarrow> [] | Some ds \<Rightarrow> ds)
              @ [Completion req]"
      and s: "?snd = (case completion_json P req of
             Inl e \<Rightarrow> Inl e
           | Inr (JObj parsed) \<Rightarrow>
               (let result = setitem parsed ''document_count'' (JInt (int ?n));
                    recommended = get result ''recommended_base'' (JStr []);
                    result = setitem result ''base_document_text''
                               (JStr (base_document_text doc_texts recommended))
                in Inr (if map_of result ''organizational_context'' = None
                        then setitem result ''organizational_context'' (JStr [])
                        else result))
           | Inr other \<Rightarrow> Inl TypeError)"
      by blast
    have "\<exists>result. ?snd = Inr result
            \<and> map_of result ''document_count'' = Some (JInt (int ?n))"
      if "completion_json P req = Inr (JObj parsed)" for parsed
      unfolding s that by (simp add: Let_def map_of_setitem)
    with f show ?thesis by blast
  qed
  from count returned show ?thesis by blast
qed

theorem document_count_is_survivor_count_witness:
  "length [letter_2025, blank_file, letter_2024] = 3
   \<and> completion_json example_platform
        \<lparr>req_endpoint = ''https://example.openai.azure.com'', req_api_key = ''secret'',
         req_api_version = ''2025-01-01-preview'', req_model = ''gpt-4o-mini'',
         req_system = ''family'',
         req_user = ''Analyze these 2 related documents:\<newline>\<newline>\<newline>=== DOCUMENT 1: Letter 2024.txt (created: 2024-08-15) ===\<newline>old\<newline>\<newline>=== DOCUMENT 2: Letter 2025.txt (created: 2025-08-14) ===\<newline>new'',
         req_temperature = 2 / 10, req_max_tokens = 3000\<rparr>
      = Inr (JObj [(''recommended_base'', JStr ''Letter 2026.txt''),
                   (''document_count'', JInt 7)])
   \<and> (\<exists>result.
         snd (analyze_document_family example_platform [letter_2025, blank_file, letter_2024]
                [] None None None None None) = Inr result
       \<and> map_of result ''document_count'' = Some (JInt 2))"
proof -
  let ?docs = "[letter_2025, blank_file, letter_2024]"
  let ?R = "\<lparr>req_endpoint = ''https://example.openai.azure.com'', req_api_key = ''secret'',
         req_api_version = ''2025-01-01-preview'', req_model = ''gpt-4o-mini'',
         req_system = ''family'',
         req_user = ''Analyze these 2 related documents:\<newline>\<newline>\<newline>=== DOCUMENT 1: Letter 2024.txt (created: 2024-08-15) ===\<newline>old\<newline>\<newline>=== DOCUMENT 2: Letter 2025.txt (created: 2025-08-14) ===\<newline>new'',
         req_temperature = 2 / 10, req_max_tokens = 3000\<rparr>"
  let ?d24 = "\<lparr>dt_filename = ''Letter 2024.txt'', dt_text = ''old'',
         dt_metadata = JObj [(''created'', JStr ''2024-08-15''),
                             (''modified'', JStr ''2024-08-15'')]\<rparr>"
  let ?d25 = "\<lparr>dt_filename = ''Letter 2025.txt'', dt_text = ''new'',
         dt_metadata = JObj [(''created'', JStr ''2025-08-14''),
                             (''modified'', JStr ''2025-09-01'')]\<rparr>"
  have n: "length (filter (\<lambda>doc. extract_document example_platform 6000 doc \<noteq> None) ?docs) = 2"
    by code_simp
  then have two:
    "2 \<le> length (filter (\<lambda>doc. extract_document example_platform 6000 doc \<noteq> None) ?docs)"
    by simp
  have sorted: "sort_by_created example_platform (extract_documents example_platform 6000 ?docs)
                = Inr [?d24, ?d25]"
    by code_simp
  note t = document_count_is_survivor_count [OF example_configured two,
      of "[]" "None :: document list option" None None]
  from t [THEN conjunct2, rule_format, OF sorted]
  obtain req where
    fa: "fst (analyze_document_family example_platform ?docs [] None None None None None)
        = map (\<lambda>doc. Extraction (doc_filename doc)) ?docs
          @ map (\<lambda>doc. Extraction (doc_filename doc)) (case (None :: document list option) of None \<Rightarrow> [] | Some ds \<Rightarrow> ds)
          @ [Completion req]
     \<and> (\<forall>parsed. completion_json example_platform req = Inr (JObj parsed)
          \<longrightarrow> (\<exists>result.
                snd (analyze_document_family example_platform ?docs [] None None None None None)
                  = Inr result
              \<and> map_of result ''document_count''
                  = Some (JInt (int (length
                      (filter (\<lambda>doc. extract_document example_platform 6000 doc \<noteq> None)
                         ?docs))))))" ..
  note f = conjunct1 [OF fa] and a = conjunct2 [OF fa]
  have e: "fst (analyze_document_family example_platform ?docs [] None None None None None)
           = [Extraction ''Letter 2025.txt'', Extraction ''Blank.txt'',
              Extraction ''Letter 2024.txt'', Completion ?R]"
    by code_simp
  from f e have r: "req = ?R" by simp
  have c: "completion_json example_platform ?R
           = Inr (JObj [(''recommended_base'', JStr ''Letter 2026.txt''),
                        (''document_count'', JInt 7)])"
    by code_simp
  from a [unfolded r, rule_format, OF c] n
  have "\<exists>result.
         snd (analyze_document_family example_platform ?docs [] None None None None None)
           = Inr result
       \<and> map_of result ''document_count'' = Some (JInt 2)"
    by simp
  with c show ?thesis by simp
qed

text \<open>
  C1 does not hold of the code. On the two documents \<open>Letter 2025.txt\<close> and
  \<open>Letter 2024.txt\<close>, both kept, and an answer that recommends \<open>Letter 2026.txt\<close>,
  the call succeeds and \<open>base_document_text\<close> is the text of the chronologically last
  document, but the returned \<open>recommended_base\<close> is still \<open>Letter 2026.txt\<close>: the
  filename is not replaced, and the result names a base document that is none of the
  input files and whose text is not the one returned with it.
\<close>

theorem recommended_base_not_substituted:
  "length (extract_documents example_platform 6000 [letter_2025, letter_2024]) = 2
   \<and> snd (analyze_document_family example_platform [letter_2025, letter_2024] [] None
            None None None None)
     = Inr [(''recommended_base'', JStr ''Letter 2026.txt''),
            (''document_count'', JInt 2),
            (''base_document_text'', JStr ''new''),
            (''organizational_context'', JStr '''')]
   \<and> ''Letter 2026.txt'' \<notin> set (map doc_filename [letter_2025, letter_2024])"
  by code_simp




end
